theory Spec2Isabelle
  imports Complex_Main
begin

section \<open>The Bitcoin blockchain manager of whitelabelwallet\<close>

text \<open>
  A shallow embedding of \<^verbatim>\<open>coins/bitcoin/blockchain.js\<close>
  (class \<^verbatim>\<open>BitcoinBlockchainManager\<close>). JavaScript numbers that carry satoshi
  amounts, indices and HTTP status codes are integers (\<open>int\<close>); the decimal coin amounts
  produced by \<^verbatim>\<open>satoshiToFloat\<close> are exact rationals (\<open>rat\<close>), so no statement
  below depends on rounding. A thrown exception (a rejected promise of an \<^verbatim>\<open>async\<close>
  method) is the left injection of a sum; every call that leaves the class (the HTTP client,
  bip39/bip32, the bitcoinjs transaction builder) is appended to a log of events.
\<close>

subsection \<open>Calls that leave the class, and exceptions\<close>

datatype event =
    ApiGetFullAddress string          \<comment> \<open>\<^verbatim>\<open>api.get(FULL_ADDRESS(address))\<close>\<close>
  | ApiGetUnspentOutputs string       \<comment> \<open>\<^verbatim>\<open>api.get(UNSPENT_OUTPUTS(fromAddress))\<close>\<close>
  | ApiPostSendTx string              \<comment> \<open>\<^verbatim>\<open>api.post(SEND_TX(), { rawtx })\<close>\<close>
  | DerivePath string int int int     \<comment> \<open>mnemonic, account, change chain, address increment\<close>
  | FromPrivateKey string             \<comment> \<open>\<^verbatim>\<open>bitcoin.ECPair.fromPrivateKey(Buffer.from(key, 'hex'))\<close>\<close>
  | NewTransactionBuilder
  | AddInput string int               \<comment> \<open>\<^verbatim>\<open>tx.addInput(txid, vout)\<close>\<close>
  | AddOutput string int              \<comment> \<open>\<^verbatim>\<open>tx.addOutput(address, satoshis)\<close>\<close>
  | Sign nat                          \<comment> \<open>\<^verbatim>\<open>tx.sign(i, keyPair)\<close>\<close>
  | Build                             \<comment> \<open>\<^verbatim>\<open>tx.build().toHex()\<close>\<close>

datatype exn =
    Threw event      \<comment> \<open>the call threw, or its promise rejected\<close>
  | TypeError        \<comment> \<open>a property of \<^verbatim>\<open>undefined\<close> or \<^verbatim>\<open>null\<close> was read\<close>

subsection \<open>Data\<close>

text \<open>The two arguments of \<^verbatim>\<open>refreshAddress\<close>. It reads these fields and no other,
  so it is defined on every extension of the two records.\<close>

record wallet =
  seed :: string
  address_index :: int

record address_param =
  a_address :: string
  a_private_key :: string

text \<open>The object returned by \<^verbatim>\<open>generateAddressFromSeed\<close> and \<^verbatim>\<open>refreshAddress\<close>.\<close>

record address_record =
  address :: string
  index :: int
  privateKey :: string

text \<open>An entry of \<^verbatim>\<open>paymentData\<close>: the amount is in coins, not in satoshis.\<close>

record payment =
  p_address :: string
  p_amount :: rat

record raw_output =
  o_address :: string
  o_satoshis :: int

record unspent =
  txid :: string
  vout :: int
  u_value :: int

text \<open>The provider's address response: \<^verbatim>\<open>res.data = { balance, txs }\<close>.
  An \<^verbatim>\<open>addresses\<close> field may be \<^verbatim>\<open>null\<close> (\<open>None\<close>).\<close>

record tx_in =
  in_addresses :: "string list option"

record tx_out =
  out_addresses :: "string list option"
  out_value :: int

record api_transaction =
  confirmations :: "int option"
  fees :: int
  hash :: string
  inputs :: "tx_in list"
  outputs :: "tx_out list"
  received :: string

record address_response =
  balance :: int
  txs :: "api_transaction list"

record formatted_transaction =
  amount :: rat
  created_date :: int
  fee :: int
  receiver_address :: "string option"
  sender_address :: "string option"
  status :: int
  transaction_id :: string

text \<open>The response of the broadcast request: \<^verbatim>\<open>{ status, data: { txid } }\<close>;
  \<open>send_data = None\<close> is a response without a body, \<open>body_txid = None\<close> a body
  without a \<^verbatim>\<open>txid\<close>.\<close>

record send_body =
  body_txid :: "string option"

record send_response =
  send_status :: int
  send_data :: "send_body option"

text \<open>\<^verbatim>\<open>ERRORS.BLOCKCHAIN\<close>, as far as the class destructures it, and the two shapes
  \<^verbatim>\<open>sendFromOneAddress\<close> returns: \<^verbatim>\<open>asErrorObject(code)\<close> and
  \<^verbatim>\<open>{ error: false, link }\<close>.\<close>

datatype blockchain_error = API_ERROR | INSUFFICIENT_FUNDS | BROADCAST_ERROR

datatype send_result = ErrorObject blockchain_error | Sent string

subsection \<open>What the class imports\<close>

text \<open>
  The constants and helpers of \<^verbatim>\<open>coins/bitcoin/constants\<close>,
  \<^verbatim>\<open>coins/bitcoin/utils\<close> and \<^verbatim>\<open>lib/utils\<close> are parameters:
  every theorem holds for each value of them.
\<close>

record deps =
  DEFAULT_FEE :: int
  DUST_THRESHOLD :: int
  ACCOUNT_BASE :: int
  CHANGE_CHAIN_EXTERNAL :: int
  satoshiToFloat :: "int \<Rightarrow> rat"
  floatToSatoshi :: "rat \<Rightarrow> int"
  getTimestamp :: "string \<Rightarrow> int"
  getSatoshisToSend :: "raw_output list \<Rightarrow> int \<Rightarrow> int"
  getInputs :: "unspent list \<Rightarrow> int \<Rightarrow> unspent list \<times> int"
  VIEW_TX :: "string option \<Rightarrow> string"

text \<open>
  The provider and the libraries. A request answers \<open>None\<close> when its promise rejects.
  \<open>derive\<close> stands for bip39's \<^verbatim>\<open>mnemonicToSeedSync\<close>, bip32's
  \<^verbatim>\<open>fromSeed\<close> and \<^verbatim>\<open>derivePath\<close> and the p2pkh encoding, which
  are pure: \<open>None\<close> when one of them throws, else the address and the hex private key.
  The transaction builder is a stateful object: whether one of its methods throws, and the
  hex it serialises, depend on the calls made so far.
\<close>

record world =
  api_full_address :: "string \<Rightarrow> address_response option"
  api_unspent_outputs :: "string \<Rightarrow> unspent list option"
  api_send_tx :: "string \<Rightarrow> send_response option"
  derive :: "string \<Rightarrow> int \<Rightarrow> int \<Rightarrow> int \<Rightarrow> (string \<times> string) option"
  ecpair_valid :: "string \<Rightarrow> bool"
  tx_throws :: "event list \<Rightarrow> event \<Rightarrow> bool"
  tx_hex :: "event list \<Rightarrow> string"

subsection \<open>Sequencing: a log of events and exceptions\<close>

type_synonym 'a io = "event list \<Rightarrow> (exn + 'a) \<times> event list"

definition io_return :: "'a \<Rightarrow> 'a io" where
  "io_return x = (\<lambda>log. (Inr x, log))"

definition io_throw :: "exn \<Rightarrow> 'a io" where
  "io_throw e = (\<lambda>log. (Inl e, log))"

definition io_bind :: "'a io \<Rightarrow> ('a \<Rightarrow> 'b io) \<Rightarrow> 'b io" where
  "io_bind m f = (\<lambda>log. case m log of
       (Inl e, log') \<Rightarrow> (Inl e, log')
     | (Inr x, log') \<Rightarrow> f x log')"

text \<open>\<^verbatim>\<open>try { x = await m } catch (err) { ... }\<close>: \<open>None\<close> in the catch branch.\<close>

definition io_try :: "'a io \<Rightarrow> 'a option io" where
  "io_try m = (\<lambda>log. case m log of
       (Inl e, log') \<Rightarrow> (Inr None, log')
     | (Inr x, log') \<Rightarrow> (Inr (Some x), log'))"

text \<open>A call whose outcome does not depend on the log: logged, then answered or thrown.\<close>

definition io_call :: "event \<Rightarrow> 'a option \<Rightarrow> 'a io" where
  "io_call ev r = (\<lambda>log. (case r of None \<Rightarrow> Inl (Threw ev) | Some x \<Rightarrow> Inr x, log @ [ev]))"

text \<open>A method of the transaction builder.\<close>

definition tx_call :: "world \<Rightarrow> event \<Rightarrow> unit io" where
  "tx_call w ev = (\<lambda>log. (if tx_throws w log ev then Inl (Threw ev) else Inr (), log @ [ev]))"

definition tx_build :: "world \<Rightarrow> string io" where
  "tx_build w = (\<lambda>log.
     (if tx_throws w log Build then Inl (Threw Build) else Inr (tx_hex w log), log @ [Build]))"

text \<open>\<^verbatim>\<open>xs.forEach(f)\<close>, stopping at the first exception.\<close>

fun forEach :: "'a list \<Rightarrow> ('a \<Rightarrow> unit io) \<Rightarrow> unit io" where
  "forEach [] f = io_return ()"
| "forEach (x # xs) f = io_bind (f x) (\<lambda>_. forEach xs f)"

subsection \<open>generateAddressFromSeed\<close>

text \<open>The default parameters of the source (\<open>account = 0\<close>, the external change chain,
  \<open>numberOfAddresses = 0\<close>) are passed explicitly.\<close>

definition generateAddressFromSeed ::
    "world \<Rightarrow> string \<Rightarrow> int \<Rightarrow> int \<Rightarrow> int \<Rightarrow> address_record io" where
  "generateAddressFromSeed w mnemonicSeed account changeChain numberOfAddresses =
     (let addressIncrement = numberOfAddresses + 1 in
      io_bind (io_call (DerivePath mnemonicSeed account changeChain addressIncrement)
                 (derive w mnemonicSeed account changeChain addressIncrement))
        (\<lambda>(addr, key). io_return
           \<lparr>address = addr, index = addressIncrement, privateKey = key\<rparr>))"

subsection \<open>The derivation in detail\<close>

text \<open>
  Lines 82-86 once more, with the path made explicit. The source builds the path with a
  template literal from \<^verbatim>\<open>BIP32.DERIVATION_PATH_BASE\<close> (a parameter, \<open>base\<close>), the
  account, the change chain and the address increment, and hands it to
  \<^verbatim>\<open>derivePath\<close>. A number in a template literal prints in decimal, with a minus
  sign when negative. (From \<open>10\<^sup>2\<^sup>1\<close> on JavaScript prints an exponent, which the
  pattern of \<^verbatim>\<open>derivePath\<close> rejects; the decimal numeral printed here is rejected by
  its range check, so the outcome is the same.)
\<close>

definition digit_char :: "nat \<Rightarrow> char" where
  "digit_char d = ''0123456789'' ! d"

function decimal :: "nat \<Rightarrow> string" where
  "decimal n = (if n < 10 then [digit_char n] else decimal (n div 10) @ [digit_char (n mod 10)])"
  by pat_completeness auto
termination
  by (relation "measure id") auto

declare decimal.simps [simp del]

definition js_number_string :: "int \<Rightarrow> string" where
  "js_number_string i = (if i < 0 then CHR ''-'' # decimal (nat (- i)) else decimal (nat i))"

text \<open>
  \<^verbatim>\<open>derivePath\<close> of the bip32 package: the path must match
  \<^verbatim>\<open>^(m\/)?(\d+'?\/)*\d+'?$\<close>; it is split at the slashes, a leading \<^verbatim>\<open>m\<close> is
  dropped, and each component is read with \<^verbatim>\<open>parseInt\<close>, as a hardened index when
  it ends in an apostrophe. \<^verbatim>\<open>deriveHardened\<close> accepts an index below \<open>2\<^sup>3\<^sup>1\<close>
  and adds \<open>2\<^sup>3\<^sup>1\<close> to it, \<^verbatim>\<open>derive\<close> accepts an index below \<open>2\<^sup>3\<^sup>2\<close>;
  anything else throws. The cryptography is a parameter: the seed of a mnemonic, the master
  node of a seed, the child of a node at a number, the keys of a node and the address of a
  public key, each \<open>None\<close> where the library throws.
\<close>

definition is_digit :: "char \<Rightarrow> bool" where
  "is_digit c = (48 \<le> (of_char c :: nat) \<and> (of_char c :: nat) \<le> 57)"

definition digit_value :: "char \<Rightarrow> nat" where
  "digit_value c = of_char c - 48"

definition parse_digits :: "string \<Rightarrow> nat option" where
  "parse_digits s =
     (if s \<noteq> [] \<and> list_all is_digit s
      then Some (foldl (\<lambda>a c. 10 * a + digit_value c) 0 s) else None)"

fun split_on :: "char \<Rightarrow> string \<Rightarrow> string list" where
  "split_on c [] = [[]]"
| "split_on c (x # xs) =
     (if x = c then [] # split_on c xs
      else (x # hd (split_on c xs)) # tl (split_on c xs))"

definition parse_component :: "string \<Rightarrow> (nat \<times> bool) option" where
  "parse_component indexStr =
     (if indexStr \<noteq> [] \<and> last indexStr = CHR 0x27
      then map_option (\<lambda>i. (i, True)) (parse_digits (butlast indexStr))
      else map_option (\<lambda>i. (i, False)) (parse_digits indexStr))"

definition components_of :: "string \<Rightarrow> string list" where
  "components_of path =
     (let splitPath = split_on CHR ''/'' path
      in if hd splitPath = ''m'' then tl splitPath else splitPath)"

type_synonym bytes = "nat list"

record 'n bip_lib =
  mnemonicToSeedSync :: "string \<Rightarrow> bytes"
  fromSeed :: "bytes \<Rightarrow> 'n option"
  ckd :: "'n \<Rightarrow> nat \<Rightarrow> 'n option"
  node_publicKey :: "'n \<Rightarrow> bytes"
  node_privateKeyHex :: "'n \<Rightarrow> string"
  p2pkh :: "bytes \<Rightarrow> string option"

definition derive_component :: "'n bip_lib \<Rightarrow> 'n \<Rightarrow> nat \<times> bool \<Rightarrow> 'n option" where
  "derive_component lib node c =
     (case c of
        (i, True) \<Rightarrow> if i < 2 ^ 31 then ckd lib node (i + 2 ^ 31) else None
      | (i, False) \<Rightarrow> if i < 2 ^ 32 then ckd lib node i else None)"

fun derive_components :: "'n bip_lib \<Rightarrow> 'n \<Rightarrow> (nat \<times> bool) list \<Rightarrow> 'n option" where
  "derive_components lib node [] = Some node"
| "derive_components lib node (c # cs) =
     (case derive_component lib node c of
        None \<Rightarrow> None
      | Some child \<Rightarrow> derive_components lib child cs)"

definition derivePath :: "'n bip_lib \<Rightarrow> 'n \<Rightarrow> string \<Rightarrow> 'n option" where
  "derivePath lib node path =
     (let cs = components_of path
      in if cs = [] then None
         else (case those (map parse_component cs) of
                 None \<Rightarrow> None
               | Some indices \<Rightarrow> derive_components lib node indices))"

text \<open>Lines 82-86 and 91: the seed, the master node, the node at the path, its address and
  its private key in hex. This is what \<open>derive\<close> of a world stands for.\<close>

definition bip32_derive ::
    "'n bip_lib \<Rightarrow> string \<Rightarrow> string \<Rightarrow> int \<Rightarrow> int \<Rightarrow> int \<Rightarrow> (string \<times> string) option" where
  "bip32_derive lib base mnemonicSeed account changeChain addressIncrement =
     (case fromSeed lib (mnemonicToSeedSync lib mnemonicSeed) of
        None \<Rightarrow> None
      | Some node \<Rightarrow>
          (case derivePath lib node
                  (base @ ''/'' @ js_number_string account @ [CHR 0x27] @ ''/''
                     @ js_number_string changeChain @ ''/'' @ js_number_string addressIncrement) of
             None \<Rightarrow> None
           | Some derived \<Rightarrow>
               (case p2pkh lib (node_publicKey lib derived) of
                  None \<Rightarrow> None
                | Some addr \<Rightarrow> Some (addr, node_privateKeyHex lib derived))))"

text \<open>
  The derivation path of the specification (section 3): an account index, a change chain and
  an address index, as numbers. The node of a path is the child at the address index of the
  child at the change chain of the hardened child at the account index, below the nodes of
  the base path.
\<close>

definition child_node ::
    "'n bip_lib \<Rightarrow> string \<Rightarrow> string \<Rightarrow> int \<Rightarrow> int \<Rightarrow> int \<Rightarrow> 'n option" where
  "child_node lib base mnemonicSeed accountIndex changeChain addressIndex =
     (if 0 \<le> accountIndex \<and> 0 \<le> changeChain \<and> 0 \<le> addressIndex
      then (case those (map parse_component (components_of base)) of
              None \<Rightarrow> None
            | Some prefix \<Rightarrow>
                (case fromSeed lib (mnemonicToSeedSync lib mnemonicSeed) of
                   None \<Rightarrow> None
                 | Some master \<Rightarrow>
                     derive_components lib master
                       (prefix @ [(nat accountIndex, True), (nat changeChain, False),
                                  (nat addressIndex, False)])))
      else None)"

subsection \<open>formatTransactionResponse and fetchAddressDetails\<close>

text \<open>The inner \<^verbatim>\<open>outputs.forEach\<close>: the running \<^verbatim>\<open>amount\<close> and
  \<^verbatim>\<open>receiver_address\<close>. \<^verbatim>\<open>output.addresses.includes\<close> throws on \<^verbatim>\<open>null\<close>.\<close>

fun sumOutputs :: "string \<Rightarrow> tx_out list \<Rightarrow> int \<times> string option \<Rightarrow> exn + int \<times> string option" where
  "sumOutputs addr [] acc = Inr acc"
| "sumOutputs addr (out # outs) (amt, receiver) =
     (case out_addresses out of
        None \<Rightarrow> Inl TypeError
      | Some as \<Rightarrow>
          if addr \<in> set as then sumOutputs addr outs (amt + out_value out, Some addr)
          else sumOutputs addr outs (amt, receiver))"

text \<open>One round of \<^verbatim>\<open>transactions.forEach\<close>. \<^verbatim>\<open>inputs[0].addresses[0]\<close>
  throws when there is no input or its addresses are \<^verbatim>\<open>null\<close>, and is
  \<^verbatim>\<open>undefined\<close> on an empty array.\<close>

definition formatTransaction :: "deps \<Rightarrow> string \<Rightarrow> api_transaction \<Rightarrow> exn + formatted_transaction" where
  "formatTransaction d addr t =
     (case inputs t of
        [] \<Rightarrow> Inl TypeError
      | i # _ \<Rightarrow>
          (case in_addresses i of
             None \<Rightarrow> Inl TypeError
           | Some as \<Rightarrow>
               (case sumOutputs addr (outputs t) (0, None) of
                  Inl e \<Rightarrow> Inl e
                | Inr (amt, receiver) \<Rightarrow> Inr
                    \<lparr>amount = satoshiToFloat d amt,
                     created_date = getTimestamp d (received t),
                     fee = fees t,
                     receiver_address = receiver,
                     sender_address = (case as of [] \<Rightarrow> None | a # _ \<Rightarrow> Some a),
                     status = (case confirmations t of
                                 None \<Rightarrow> 0 | Some c \<Rightarrow> if c \<noteq> 0 then 1 else 0),
                     transaction_id = hash t\<rparr>)))"

fun formatTransactionResponse ::
    "deps \<Rightarrow> api_transaction list \<Rightarrow> string \<Rightarrow> exn + formatted_transaction list" where
  "formatTransactionResponse d [] addr = Inr []"
| "formatTransactionResponse d (t # ts) addr =
     (case formatTransaction d addr t of
        Inl e \<Rightarrow> Inl e
      | Inr f \<Rightarrow>
          (case formatTransactionResponse d ts addr of
             Inl e \<Rightarrow> Inl e
           | Inr fs \<Rightarrow> Inr (f # fs)))"

definition fetchAddressDetails ::
    "world \<Rightarrow> deps \<Rightarrow> string \<Rightarrow> (int \<times> formatted_transaction list) io" where
  "fetchAddressDetails w d addr =
     io_bind (io_call (ApiGetFullAddress addr) (api_full_address w addr))
       (\<lambda>res. case formatTransactionResponse d (txs res) addr of
                 Inl e \<Rightarrow> io_throw e
               | Inr transactions \<Rightarrow> io_return (balance res, transactions))"

subsection \<open>sendFromOneAddress\<close>

text \<open>
  Modelled from the spec: \<^verbatim>\<open>getOutputs\<close> of \<^verbatim>\<open>coins/bitcoin/utils\<close> is not
  among the sources. The specification has it convert the payments into raw outputs, in the
  caller's order (sections 3 and 4.4, step 1); the conversion of one amount is the
  parameter \<open>floatToSatoshi\<close>.
\<close>

definition getOutputs :: "deps \<Rightarrow> payment list \<Rightarrow> raw_output list" where
  "getOutputs d paymentData =
     map (\<lambda>p. \<lparr>o_address = p_address p, o_satoshis = floatToSatoshi d (p_amount p)\<rparr>) paymentData"

text \<open>Lines 232-238: the change output is pushed after the outputs of the payments.
  \<^verbatim>\<open>remainingSatoshis && ...\<close> is false on \<open>0\<close>.\<close>

definition withChange :: "deps \<Rightarrow> string \<Rightarrow> int \<Rightarrow> raw_output list \<Rightarrow> raw_output list" where
  "withChange d fromAddress remainingSatoshis outs =
     (if remainingSatoshis \<noteq> 0 \<and> remainingSatoshis > DUST_THRESHOLD d
      then outs @ [\<lparr>o_address = fromAddress, o_satoshis = remainingSatoshis\<rparr>]
      else outs)"

text \<open>Lines 240-256: inputs, outputs, one signature per input, serialisation.\<close>

definition buildAndSign :: "world \<Rightarrow> unspent list \<Rightarrow> raw_output list \<Rightarrow> string io" where
  "buildAndSign w ins outs =
     io_bind (forEach ins (\<lambda>input. tx_call w (AddInput (txid input) (vout input)))) (\<lambda>_.
     io_bind (forEach outs (\<lambda>output. tx_call w (AddOutput (o_address output) (o_satoshis output)))) (\<lambda>_.
     io_bind (forEach [0..<length ins] (\<lambda>i. tx_call w (Sign i))) (\<lambda>_.
     tx_build w)))"

text \<open>Lines 257-274: the broadcast. Destructuring \<^verbatim>\<open>data: { txid }\<close> throws when the
  response has no body.\<close>

definition broadcast :: "world \<Rightarrow> deps \<Rightarrow> string \<Rightarrow> send_result io" where
  "broadcast w d signedTx =
     io_bind (io_try (io_call (ApiPostSendTx signedTx) (api_send_tx w signedTx))) (\<lambda>r.
       case r of
         None \<Rightarrow> io_return (ErrorObject API_ERROR)
       | Some res \<Rightarrow>
           (case send_data res of
              None \<Rightarrow> io_throw TypeError
            | Some body \<Rightarrow>
                if send_status res = 200 then io_return (Sent (VIEW_TX d (body_txid body)))
                else io_return (ErrorObject BROADCAST_ERROR)))"

text \<open>The \<open>fee\<close> argument is optional and defaults to \<^verbatim>\<open>this.defaultFee\<close>, which the
  constructor sets to \<^verbatim>\<open>DEFAULT_FEE\<close> and nothing changes.\<close>

definition sendFromOneAddress ::
    "world \<Rightarrow> deps \<Rightarrow> string \<Rightarrow> string \<Rightarrow> payment list \<Rightarrow> int option \<Rightarrow> send_result io" where
  "sendFromOneAddress w d fromAddress key paymentData fee_opt =
     io_bind (io_call (FromPrivateKey key) (if ecpair_valid w key then Some () else None)) (\<lambda>_.
     io_bind (io_call NewTransactionBuilder (Some ())) (\<lambda>_.
     let fee = (case fee_opt of None \<Rightarrow> DEFAULT_FEE d | Some f \<Rightarrow> f);
         outs = getOutputs d paymentData;
         satoshisToSend = getSatoshisToSend d outs fee
     in
     io_bind (io_try (io_call (ApiGetUnspentOutputs fromAddress) (api_unspent_outputs w fromAddress))) (\<lambda>r.
       case r of
         None \<Rightarrow> io_return (ErrorObject API_ERROR)
       | Some unspentOutputs \<Rightarrow>
           (case getInputs d unspentOutputs satoshisToSend of
              (ins, remainingSatoshis) \<Rightarrow>
                if remainingSatoshis < 0 then io_return (ErrorObject INSUFFICIENT_FUNDS)
                else
                  io_bind (buildAndSign w ins (withChange d fromAddress remainingSatoshis outs))
                    (\<lambda>signedTx. broadcast w d signedTx)))))"

subsection \<open>refreshAddress\<close>

text \<open>Lines 120-123: the payment of the sweep.\<close>

definition sweepPaymentData :: "deps \<Rightarrow> string \<Rightarrow> int \<Rightarrow> payment list" where
  "sweepPaymentData d newAddress bal =
     [\<lparr>p_address = newAddress, p_amount = satoshiToFloat d (bal - DEFAULT_FEE d)\<rparr>]"

definition refreshAddress ::
    "world \<Rightarrow> deps \<Rightarrow> 'a wallet_scheme \<Rightarrow> 'b address_param_scheme \<Rightarrow> address_record io" where
  "refreshAddress w d wal addressParam =
     io_bind (fetchAddressDetails w d (a_address addressParam)) (\<lambda>(bal, _).
       let addr = a_address addressParam;
           key = a_private_key addressParam;
           idx = address_index wal
       in
       if bal > 0 \<and> bal \<le> DEFAULT_FEE d
       then io_return \<lparr>address = addr, index = idx, privateKey = key\<rparr>
       else
         io_bind (generateAddressFromSeed w (seed wal) (ACCOUNT_BASE d) (CHANGE_CHAIN_EXTERNAL d) idx)
           (\<lambda>newAddressData.
         io_bind (if bal \<noteq> 0
                  then io_bind (sendFromOneAddress w d (a_address addressParam) key
                                  (sweepPaymentData d (address newAddressData) bal) None)
                         (\<lambda>_. io_return ())
                  else io_return ())
           (\<lambda>_. io_return
              \<lparr>address = address newAddressData,
               index = index newAddressData,
               privateKey = privateKey newAddressData\<rparr>)))"

subsection \<open>The helpers of the specification, and an example provider\<close>

text \<open>
  Modelled from the spec: \<^verbatim>\<open>getInputs\<close> of \<^verbatim>\<open>coins/bitcoin/utils\<close> is not
  among the sources. Section 4.2: accumulate the unspent outputs in the provider's order until
  the accumulated value reaches the target; the remainder is the accumulated value minus the
  target, negative when all of them do not suffice.
\<close>

fun selectFrom :: "unspent list \<Rightarrow> int \<Rightarrow> unspent list \<Rightarrow> int \<Rightarrow> unspent list \<times> int" where
  "selectFrom [] target acc accumulated = (acc, accumulated - target)"
| "selectFrom (u # us) target acc accumulated =
     (if accumulated \<ge> target then (acc, accumulated - target)
      else selectFrom us target (acc @ [u]) (accumulated + u_value u))"

definition selectInputs :: "unspent list \<Rightarrow> int \<Rightarrow> unspent list \<times> int" where
  "selectInputs utxos targetSatoshis = selectFrom utxos targetSatoshis [] 0"

text \<open>
  Modelled from the spec: \<^verbatim>\<open>getSatoshisToSend\<close> of \<^verbatim>\<open>coins/bitcoin/utils\<close>
  is not among the sources. Section 4.3: the spend target is the sum of the outputs plus the fee.
\<close>

definition spendTarget :: "raw_output list \<Rightarrow> int \<Rightarrow> int" where
  "spendTarget outs explicitFee = sum_list (map o_satoshis outs) + explicitFee"

text \<open>
  Modelled from the spec: \<^verbatim>\<open>satoshiToFloat\<close> of \<^verbatim>\<open>lib/utils\<close> and its
  inverse are not among the sources. Section 3 calls it the conversion to a human-decimal
  unit; one coin is \<open>10\<^sup>8\<close> satoshis. The values of the constants are examples.
\<close>

definition example_deps :: deps where
  "example_deps =
     \<lparr>DEFAULT_FEE = 10000,
      DUST_THRESHOLD = 1000,
      ACCOUNT_BASE = 0,
      CHANGE_CHAIN_EXTERNAL = 0,
      satoshiToFloat = (\<lambda>s. of_int s / 100000000),
      floatToSatoshi = (\<lambda>f. \<lfloor>f * 100000000\<rfloor>),
      getTimestamp = (\<lambda>_. 0),
      getSatoshisToSend = spendTarget,
      getInputs = selectInputs,
      VIEW_TX = (\<lambda>t. ''/tx/'' @ (case t of None \<Rightarrow> ''undefined'' | Some x \<Rightarrow> x))\<rparr>"

text \<open>A transaction of the provider's history.\<close>

definition example_transaction :: api_transaction where
  "example_transaction =
     \<lparr>confirmations = Some 3, fees = 200, hash = ''dd'',
      inputs = [\<lparr>in_addresses = Some [''1Src'']\<rparr>],
      outputs = [\<lparr>out_addresses = Some [''1Old''], out_value = 10000\<rparr>,
                 \<lparr>out_addresses = Some [''1Src''], out_value = 4000\<rparr>],
      received = ''2020-01-01T00:00:00Z''\<rparr>"

text \<open>A provider that holds 80000 satoshis in two unspent outputs for every address and
  accepts every transaction; a private key is valid when it has 64 hex digits; the
  transaction builder never throws.\<close>

definition example_world :: world where
  "example_world =
     \<lparr>api_full_address = (\<lambda>_. Some \<lparr>balance = 80000, txs = [example_transaction]\<rparr>),
      api_unspent_outputs = (\<lambda>_. Some [\<lparr>txid = ''aa'', vout = 0, u_value = 50000\<rparr>,
                                         \<lparr>txid = ''bb'', vout = 1, u_value = 30000\<rparr>]),
      api_send_tx = (\<lambda>_. Some \<lparr>send_status = 200, send_data = Some \<lparr>body_txid = Some ''cc''\<rparr>\<rparr>),
      derive = (\<lambda>_ _ _ _. Some (''1New'', ''0b'')),
      ecpair_valid = (\<lambda>k. length k = 64),
      tx_throws = (\<lambda>_ _. False),
      tx_hex = (\<lambda>_. ''0100'')\<rparr>"

definition example_key :: string where
  "example_key = ''0000000000000000000000000000000000000000000000000000000000000001''"

definition example_payment :: "payment list" where
  "example_payment = [\<lparr>p_address = ''1Dst'', p_amount = 5 / 10000\<rparr>]"

text \<open>A payment of everything the example provider holds, less the default fee.\<close>

definition example_payment_all :: "payment list" where
  "example_payment_all = [\<lparr>p_address = ''1Dst'', p_amount = 7 / 10000\<rparr>]"

text \<open>The same provider with a single unspent output of 500 satoshis.\<close>

definition poor_world :: world where
  "poor_world =
     example_world\<lparr>api_unspent_outputs := \<lambda>_. Some [\<lparr>txid = ''aa'', vout = 0, u_value = 500\<rparr>]\<rparr>"

text \<open>An address row as the persistence layer may hand it over, with an index of its own,
  and a wallet.\<close>

record address_row = address_param +
  a_index :: int

definition example_wallet :: wallet where
  "example_wallet = \<lparr>seed = ''abandon abandon about'', address_index = 3\<rparr>"

definition example_address :: address_row where
  "example_address = \<lparr>a_address = ''1Old'', a_private_key = example_key, a_index = 7\<rparr>"

text \<open>The same provider reporting a balance equal to the default fee, and a balance of zero.\<close>

definition small_balance_world :: world where
  "small_balance_world =
     example_world\<lparr>api_full_address := \<lambda>_. Some \<lparr>balance = 10000, txs = [example_transaction]\<rparr>\<rparr>"

definition zero_balance_world :: world where
  "zero_balance_world =
     example_world\<lparr>api_full_address := \<lambda>_. Some \<lparr>balance = 0, txs = []\<rparr>\<rparr>"

text \<open>A provider that is down for the unspent outputs, and one that answers the
  broadcast with status 200 and a body without a transaction id.\<close>

definition unspent_down_world :: world where
  "unspent_down_world = example_world\<lparr>api_unspent_outputs := \<lambda>_. None\<rparr>"

definition no_txid_world :: world where
  "no_txid_world =
     example_world\<lparr>api_send_tx := \<lambda>_. Some \<lparr>send_status = 200, send_data = Some \<lparr>body_txid = None\<rparr>\<rparr>\<rparr>"

text \<open>A library for examples: a node is the list of the child numbers that lead to it, and
  the address and the key of a node show its last number. The base path is
  \<^verbatim>\<open>m/44'/0'\<close>.\<close>

definition example_base :: string where
  "example_base = ''m/44'' @ [CHR 0x27] @ ''/0'' @ [CHR 0x27]"

definition example_lib :: "nat list bip_lib" where
  "example_lib =
     \<lparr>mnemonicToSeedSync = map of_char,
      fromSeed = (\<lambda>seed. Some []),
      ckd = (\<lambda>node i. Some (node @ [i])),
      node_publicKey = (\<lambda>node. node),
      node_privateKeyHex = (\<lambda>node. ''key-'' @ decimal (last node)),
      p2pkh = (\<lambda>pubkey. Some (''addr-'' @ decimal (last pubkey)))\<rparr>"

subsection \<open>Reading the log and the history\<close>

text \<open>The outputs the transaction builder was given, in the order of the calls.\<close>

fun addedOutputs :: "event list \<Rightarrow> raw_output list" where
  "addedOutputs [] = []"
| "addedOutputs (AddOutput a s # evs) = \<lparr>o_address = a, o_satoshis = s\<rparr> # addedOutputs evs"
| "addedOutputs (_ # evs) = addedOutputs evs"

text \<open>The satoshis a transaction of the provider pays to an address: the sum of its outputs
  whose addresses include it.\<close>

definition paysTo :: "string \<Rightarrow> tx_out \<Rightarrow> bool" where
  "paysTo addr out = (case out_addresses out of None \<Rightarrow> False | Some as \<Rightarrow> addr \<in> set as)"

definition receivedSatoshis :: "string \<Rightarrow> api_transaction \<Rightarrow> int" where
  "receivedSatoshis addr t = sum_list (map out_value (filter (paysTo addr) (outputs t)))"

section \<open>Properties\<close>

lemmas io_defs =
  io_return_def io_throw_def io_bind_def io_try_def io_call_def tx_call_def tx_build_def

lemmas example_defs =
  example_world_def example_deps_def example_key_def example_payment_def poor_world_def
  selectInputs_def spendTarget_def getOutputs_def
  example_wallet_def example_address_def example_transaction_def small_balance_world_def

lemmas run_defs =
  sendFromOneAddress_def buildAndSign_def broadcast_def withChange_def Let_def io_defs example_defs

lemma fetchAddressDetails_run:
  "fetchAddressDetails w d addr evs =
     (case api_full_address w addr of
        None \<Rightarrow> Inl (Threw (ApiGetFullAddress addr))
      | Some res \<Rightarrow>
          (case formatTransactionResponse d (txs res) addr of
             Inl e \<Rightarrow> Inl e
           | Inr ts \<Rightarrow> Inr (balance res, ts)),
      evs @ [ApiGetFullAddress addr])"
  by (simp add: fetchAddressDetails_def io_defs split: option.splits sum.splits)

lemma generateAddressFromSeed_run:
  "generateAddressFromSeed w s acc ch n evs =
     (case derive w s acc ch (n + 1) of
        None \<Rightarrow> Inl (Threw (DerivePath s acc ch (n + 1)))
      | Some (a, k) \<Rightarrow> Inr \<lparr>address = a, index = n + 1, privateKey = k\<rparr>,
      evs @ [DerivePath s acc ch (n + 1)])"
  by (simp add: generateAddressFromSeed_def io_defs Let_def split: option.splits)

subsection \<open>The selection of the specification\<close>

text \<open>With values that are not negative, the remainder is negative when all the unspent
  outputs do not reach the target; otherwise it is the value selected minus the target.\<close>

lemma selectFrom_insufficient:
  assumes "\<forall>u \<in> set us. 0 \<le> u_value u"
    and "accumulated + sum_list (map u_value us) < target"
  shows "snd (selectFrom us target acc accumulated) < 0"
  using assms
proof (induction us arbitrary: acc accumulated)
  case Nil
  then show ?case by simp
next
  case (Cons u us)
  have "0 \<le> sum_list (map u_value (u # us))"
    using Cons.prems(1) by (intro sum_list_nonneg) auto
  with Cons.prems(2) have "\<not> target \<le> accumulated" by simp
  moreover have "snd (selectFrom us target (acc @ [u]) (accumulated + u_value u)) < 0"
    using Cons.prems by (intro Cons.IH) (simp_all add: add.assoc)
  ultimately show ?case by simp
qed

lemma selectInputs_insufficient:
  "\<forall>u \<in> set us. 0 \<le> u_value u \<Longrightarrow> sum_list (map u_value us) < target
     \<Longrightarrow> snd (selectInputs us target) < 0"
  using selectFrom_insufficient [of us 0 target "[]"] by (simp add: selectInputs_def)

lemma selectFrom_remaining:
  "snd (selectFrom us target acc accumulated) =
     accumulated + sum_list (map u_value (fst (selectFrom us target acc accumulated)))
       - sum_list (map u_value acc) - target"
  by (induction us arbitrary: acc accumulated) simp_all

lemma selectFrom_sufficient:
  "target \<le> accumulated + sum_list (map u_value us)
     \<Longrightarrow> 0 \<le> snd (selectFrom us target acc accumulated)"
  by (induction us arbitrary: acc accumulated) (simp_all add: add.assoc)

lemma selectInputs_sufficient:
  "target \<le> sum_list (map u_value us) \<Longrightarrow>
     0 \<le> snd (selectInputs us target)
     \<and> snd (selectInputs us target) = sum_list (map u_value (fst (selectInputs us target))) - target"
  using selectFrom_sufficient [of target 0 us "[]"] selectFrom_remaining [of us target "[]" 0]
  by (simp add: selectInputs_def)

subsection \<open>The log of a run\<close>

lemma addedOutputs_append: "addedOutputs (xs @ ys) = addedOutputs xs @ addedOutputs ys"
  by (induction xs rule: addedOutputs.induct) simp_all

lemma addedOutputs_AddOutput:
  "addedOutputs (map (\<lambda>output. AddOutput (o_address output) (o_satoshis output)) outs) = outs"
  by (induction outs) simp_all

lemma addedOutputs_AddInput:
  "addedOutputs (map (\<lambda>input. AddInput (txid input) (vout input)) ins) = []"
  by (induction ins) simp_all

lemma addedOutputs_Sign: "addedOutputs (map Sign ns) = []"
  by (induction ns) simp_all

text \<open>A loop over builder calls that does not throw has logged one call per element.\<close>

lemma forEach_tx_call_ok:
  "forEach xs (\<lambda>x. tx_call w (ev x)) evs = (Inr u, evs') \<Longrightarrow> evs' = evs @ map ev xs"
proof (induction xs arbitrary: evs)
  case Nil
  then show ?case by (simp add: io_defs)
next
  case (Cons x xs)
  from Cons.prems have "\<not> tx_throws w evs (ev x)"
    by (auto simp add: io_defs split: if_splits)
  with Cons.prems have "forEach xs (\<lambda>x. tx_call w (ev x)) (evs @ [ev x]) = (Inr u, evs')"
    by (simp add: io_defs)
  from Cons.IH [OF this] show ?case by simp
qed

text \<open>When the draft is built, every input, every output and every signature was logged,
  in this order.\<close>

lemma buildAndSign_ok:
  assumes "buildAndSign w ins outs evs = (Inr signedTx, evs')"
  shows "evs' = evs @ map (\<lambda>input. AddInput (txid input) (vout input)) ins
                    @ map (\<lambda>output. AddOutput (o_address output) (o_satoshis output)) outs
                    @ map Sign [0..<length ins] @ [Build]"
proof -
  obtain r1 e1 where s1: "forEach ins (\<lambda>input. tx_call w (AddInput (txid input) (vout input))) evs = (r1, e1)"
    by (cases "forEach ins (\<lambda>input. tx_call w (AddInput (txid input) (vout input))) evs")
  obtain r2 e2 where s2: "forEach outs (\<lambda>output. tx_call w (AddOutput (o_address output) (o_satoshis output))) e1 = (r2, e2)"
    by (cases "forEach outs (\<lambda>output. tx_call w (AddOutput (o_address output) (o_satoshis output))) e1")
  obtain r3 e3 where s3: "forEach [0..<length ins] (\<lambda>i. tx_call w (Sign i)) e2 = (r3, e3)"
    by (cases "forEach [0..<length ins] (\<lambda>i. tx_call w (Sign i)) e2")
  from assms s1 have r1: "r1 = Inr ()"
    by (cases r1) (simp_all add: buildAndSign_def io_bind_def)
  with assms s1 s2 have r2: "r2 = Inr ()"
    by (cases r2) (simp_all add: buildAndSign_def io_bind_def)
  with assms s1 s2 s3 r1 have r3: "r3 = Inr ()"
    by (cases r3) (simp_all add: buildAndSign_def io_bind_def)
  from assms s1 s2 s3 r1 r2 r3 have last: "evs' = e3 @ [Build]"
    by (simp add: buildAndSign_def io_bind_def tx_build_def split: if_splits)
  from forEach_tx_call_ok [of ins w "\<lambda>input. AddInput (txid input) (vout input)"] s1 r1
  have "e1 = evs @ map (\<lambda>input. AddInput (txid input) (vout input)) ins" by simp
  moreover from forEach_tx_call_ok [of outs w "\<lambda>output. AddOutput (o_address output) (o_satoshis output)"] s2 r2
  have "e2 = e1 @ map (\<lambda>output. AddOutput (o_address output) (o_satoshis output)) outs" by simp
  moreover from forEach_tx_call_ok [of "[0..<length ins]" w Sign] s3 r3
  have "e3 = e2 @ map Sign [0..<length ins]" by simp
  ultimately show ?thesis using last by simp
qed

lemma broadcast_log: "broadcast w d signedTx evs = (r, evs') \<Longrightarrow> evs' = evs @ [ApiPostSendTx signedTx]"
  by (auto simp add: broadcast_def io_defs split: option.splits if_splits)

text \<open>After a successful selection \<^verbatim>\<open>sendFromOneAddress\<close> is the build followed by
  the broadcast.\<close>

lemma sendFromOneAddress_selected:
  assumes "ecpair_valid w key"
    and "api_unspent_outputs w fromAddress = Some unspentOutputs"
    and "getInputs d unspentOutputs
           (getSatoshisToSend d (getOutputs d paymentData)
              (case fee_opt of None \<Rightarrow> DEFAULT_FEE d | Some f \<Rightarrow> f)) = (ins, remainingSatoshis)"
    and "0 \<le> remainingSatoshis"
  shows "sendFromOneAddress w d fromAddress key paymentData fee_opt evs =
           io_bind (buildAndSign w ins (withChange d fromAddress remainingSatoshis (getOutputs d paymentData)))
             (broadcast w d)
             (evs @ [FromPrivateKey key, NewTransactionBuilder, ApiGetUnspentOutputs fromAddress])"
  using assms by (simp add: sendFromOneAddress_def Let_def io_return_def io_call_def io_try_def io_bind_def)

text \<open>A call that returns, with a result or an error object, has parsed its key.\<close>

lemma sendFromOneAddress_returns_valid:
  assumes "sendFromOneAddress w d fromAddress key paymentData fee_opt evs = (Inr res, evs')"
  shows "ecpair_valid w key"
proof (rule ccontr)
  assume "\<not> ecpair_valid w key"
  then have "sendFromOneAddress w d fromAddress key paymentData fee_opt evs =
               (Inl (Threw (FromPrivateKey key)), evs @ [FromPrivateKey key])"
    by (simp add: sendFromOneAddress_def io_defs)
  with assms show False by simp
qed

lemma sendFromOneAddress_returns_log:
  assumes "api_unspent_outputs w fromAddress = Some unspentOutputs"
    and "getInputs d unspentOutputs
           (getSatoshisToSend d (getOutputs d paymentData)
              (case fee_opt of None \<Rightarrow> DEFAULT_FEE d | Some f \<Rightarrow> f)) = (ins, remainingSatoshis)"
    and "0 \<le> remainingSatoshis"
    and "sendFromOneAddress w d fromAddress key paymentData fee_opt evs = (Inr res, evs')"
  shows "\<exists>signedTx. evs' =
           evs @ [FromPrivateKey key, NewTransactionBuilder, ApiGetUnspentOutputs fromAddress]
           @ map (\<lambda>input. AddInput (txid input) (vout input)) ins
           @ map (\<lambda>output. AddOutput (o_address output) (o_satoshis output))
               (withChange d fromAddress remainingSatoshis (getOutputs d paymentData))
           @ map Sign [0..<length ins] @ [Build, ApiPostSendTx signedTx]"
proof -
  let ?evs0 = "evs @ [FromPrivateKey key, NewTransactionBuilder, ApiGetUnspentOutputs fromAddress]"
  let ?outs = "withChange d fromAddress remainingSatoshis (getOutputs d paymentData)"
  have valid: "ecpair_valid w key"
    using assms(4) by (rule sendFromOneAddress_returns_valid)
  have run: "io_bind (buildAndSign w ins ?outs) (broadcast w d) ?evs0 = (Inr res, evs')"
    using sendFromOneAddress_selected [OF valid assms(1-3)] assms(4) by simp
  obtain r1 e1 where b: "buildAndSign w ins ?outs ?evs0 = (r1, e1)"
    by (cases "buildAndSign w ins ?outs ?evs0")
  from run b obtain signedTx where r1: "r1 = Inr signedTx"
    by (cases r1) (simp_all add: io_bind_def)
  from run b r1 have "broadcast w d signedTx e1 = (Inr res, evs')"
    by (simp add: io_bind_def)
  then have "evs' = e1 @ [ApiPostSendTx signedTx]" by (rule broadcast_log)
  with buildAndSign_ok [OF b [unfolded r1]] show ?thesis by simp
qed

lemma sendFromOneAddress_returns_addedOutputs:
  assumes "api_unspent_outputs w fromAddress = Some unspentOutputs"
    and "getInputs d unspentOutputs
           (getSatoshisToSend d (getOutputs d paymentData)
              (case fee_opt of None \<Rightarrow> DEFAULT_FEE d | Some f \<Rightarrow> f)) = (ins, remainingSatoshis)"
    and "0 \<le> remainingSatoshis"
    and "sendFromOneAddress w d fromAddress key paymentData fee_opt (evs @ pre) = (Inr res, evs')"
  shows "addedOutputs (drop (length evs) evs') =
           addedOutputs pre @ withChange d fromAddress remainingSatoshis (getOutputs d paymentData)"
proof -
  from sendFromOneAddress_returns_log [OF assms] obtain signedTx where
    "evs' = (evs @ pre) @ [FromPrivateKey key, NewTransactionBuilder, ApiGetUnspentOutputs fromAddress]
           @ map (\<lambda>input. AddInput (txid input) (vout input)) ins
           @ map (\<lambda>output. AddOutput (o_address output) (o_satoshis output))
               (withChange d fromAddress remainingSatoshis (getOutputs d paymentData))
           @ map Sign [0..<length ins] @ [Build, ApiPostSendTx signedTx]"
    by blast
  then show ?thesis
    by (simp add: addedOutputs_append addedOutputs_AddInput addedOutputs_AddOutput addedOutputs_Sign)
qed

text \<open>The sweep branch of \<^verbatim>\<open>refreshAddress\<close>: the result of
  \<^verbatim>\<open>sendFromOneAddress\<close> is awaited and dropped; only its exception propagates.\<close>

lemma refreshAddress_sweep:
  assumes "api_full_address w (a_address addressParam) = Some res"
    and "formatTransactionResponse d (txs res) (a_address addressParam) = Inr ts"
    and "\<not> (0 < balance res \<and> balance res \<le> DEFAULT_FEE d)"
    and "balance res \<noteq> 0"
    and "derive w (seed wal) (ACCOUNT_BASE d) (CHANGE_CHAIN_EXTERNAL d) (address_index wal + 1)
           = Some (newAddress, newKey)"
  shows "refreshAddress w d wal addressParam evs =
           (case sendFromOneAddress w d (a_address addressParam) (a_private_key addressParam)
                   (sweepPaymentData d newAddress (balance res)) None
                   (evs @ [ApiGetFullAddress (a_address addressParam),
                           DerivePath (seed wal) (ACCOUNT_BASE d) (CHANGE_CHAIN_EXTERNAL d)
                             (address_index wal + 1)]) of
              (Inl e, evs') \<Rightarrow> (Inl e, evs')
            | (Inr _, evs') \<Rightarrow>
                (Inr \<lparr>address = newAddress, index = address_index wal + 1, privateKey = newKey\<rparr>, evs'))"
  using assms
  apply (simp add: refreshAddress_def Let_def fetchAddressDetails_run generateAddressFromSeed_run
        io_return_def io_bind_def)
  apply (simp split: prod.splits sum.splits)
  done

lemma refreshAddress_sweep_error_ignored:
  assumes "api_full_address w (a_address addressParam) = Some res"
    and "formatTransactionResponse d (txs res) (a_address addressParam) = Inr ts"
    and "\<not> (0 < balance res \<and> balance res \<le> DEFAULT_FEE d)"
    and "balance res \<noteq> 0"
    and "derive w (seed wal) (ACCOUNT_BASE d) (CHANGE_CHAIN_EXTERNAL d) (address_index wal + 1)
           = Some (newAddress, newKey)"
    and "sendFromOneAddress w d (a_address addressParam) (a_private_key addressParam)
           (sweepPaymentData d newAddress (balance res)) None
           (evs @ [ApiGetFullAddress (a_address addressParam),
                   DerivePath (seed wal) (ACCOUNT_BASE d) (CHANGE_CHAIN_EXTERNAL d)
                     (address_index wal + 1)])
         = (Inr (ErrorObject err), evs')"
  shows "refreshAddress w d wal addressParam evs =
           (Inr \<lparr>address = newAddress, index = address_index wal + 1, privateKey = newKey\<rparr>, evs')"
  using refreshAddress_sweep [OF assms(1-5), of evs] assms(6) by simp

text \<open>The amounts of \<^verbatim>\<open>formatTransactionResponse\<close>.\<close>

lemma sumOutputs_amount:
  "sumOutputs addr outs (amt, receiver) = Inr (amt', receiver')
     \<Longrightarrow> amt' = amt + sum_list (map out_value (filter (paysTo addr) outs))"
proof (induction outs arbitrary: amt receiver)
  case Nil
  then show ?case by simp
next
  case (Cons out outs)
  show ?case
  proof (cases "out_addresses out")
    case None
    with Cons.prems show ?thesis by simp
  next
    case (Some as)
    show ?thesis
    proof (cases "addr \<in> set as")
      case True
      with Some Cons.prems
      have "sumOutputs addr outs (amt + out_value out, Some addr) = Inr (amt', receiver')"
        by simp
      from Cons.IH [OF this] Some True show ?thesis by (simp add: paysTo_def)
    next
      case False
      with Some Cons.prems
      have "sumOutputs addr outs (amt, receiver) = Inr (amt', receiver')"
        by simp
      from Cons.IH [OF this] Some False show ?thesis by (simp add: paysTo_def)
    qed
  qed
qed

lemma formatTransaction_amount:
  assumes "formatTransaction d addr t = Inr f"
  shows "amount f = satoshiToFloat d (receivedSatoshis addr t)"
proof (cases "sumOutputs addr (outputs t) (0, None)")
  case (Inl e)
  with assms show ?thesis
    by (simp add: formatTransaction_def split: list.splits option.splits)
next
  case (Inr acc)
  obtain amt receiver where acc: "acc = (amt, receiver)" by (cases acc)
  from Inr acc have "amt = 0 + sum_list (map out_value (filter (paysTo addr) (outputs t)))"
    using sumOutputs_amount [of addr "outputs t" 0 None amt receiver] by simp
  moreover from assms Inr acc have "amount f = satoshiToFloat d amt"
    by (auto simp add: formatTransaction_def split: list.splits option.splits)
  ultimately show ?thesis by (simp add: receivedSatoshis_def)
qed

lemma formatTransactionResponse_amounts:
  "formatTransactionResponse d ts addr = Inr fs
     \<Longrightarrow> map amount fs = map (\<lambda>t. satoshiToFloat d (receivedSatoshis addr t)) ts"
proof (induction ts arbitrary: fs)
  case Nil
  then show ?case by auto
next
  case (Cons t ts)
  from Cons.prems obtain f fs' where
    f: "formatTransaction d addr t = Inr f" and
    fs': "formatTransactionResponse d ts addr = Inr fs'" and
    fs: "fs = f # fs'"
    by (auto split: sum.splits)
  from formatTransaction_amount [OF f] Cons.IH [OF fs'] fs show ?case by simp
qed

text \<open>Runs of the example provider.\<close>

lemma example_send:
  "sendFromOneAddress example_world example_deps ''1Old'' example_key example_payment None []
     = (Inr (Sent ''/tx/cc''),
        [FromPrivateKey example_key, NewTransactionBuilder, ApiGetUnspentOutputs ''1Old'',
         AddInput ''aa'' 0, AddInput ''bb'' 1, AddOutput ''1Dst'' 50000, AddOutput ''1Old'' 20000,
         Sign 0, Sign 1, Build, ApiPostSendTx ''0100''])"
  by (simp add: run_defs)

lemma example_send_all:
  "sendFromOneAddress example_world example_deps ''1Old'' example_key example_payment_all None []
     = (Inr (Sent ''/tx/cc''),
        [FromPrivateKey example_key, NewTransactionBuilder, ApiGetUnspentOutputs ''1Old'',
         AddInput ''aa'' 0, AddInput ''bb'' 1, AddOutput ''1Dst'' 70000,
         Sign 0, Sign 1, Build, ApiPostSendTx ''0100''])"
  by (simp add: run_defs example_payment_all_def)

lemma example_buildAndSign:
  "buildAndSign no_txid_world
     [\<lparr>txid = ''aa'', vout = 0, u_value = 50000\<rparr>, \<lparr>txid = ''bb'', vout = 1, u_value = 30000\<rparr>]
     (withChange example_deps ''1Old'' 20000 (getOutputs example_deps example_payment))
     ([] @ [FromPrivateKey example_key, NewTransactionBuilder, ApiGetUnspentOutputs ''1Old''])
   = (Inr ''0100'',
      [FromPrivateKey example_key, NewTransactionBuilder, ApiGetUnspentOutputs ''1Old'',
       AddInput ''aa'' 0, AddInput ''bb'' 1, AddOutput ''1Dst'' 50000, AddOutput ''1Old'' 20000,
       Sign 0, Sign 1, Build])"
  by (simp add: run_defs no_txid_world_def)

lemma example_refresh:
  "refreshAddress example_world example_deps example_wallet example_address []
     = (Inr \<lparr>address = ''1New'', index = 4, privateKey = ''0b''\<rparr>,
        [ApiGetFullAddress ''1Old'', DerivePath ''abandon abandon about'' 0 0 4,
         FromPrivateKey example_key, NewTransactionBuilder, ApiGetUnspentOutputs ''1Old'',
         AddInput ''aa'' 0, AddInput ''bb'' 1, AddOutput ''1New'' 70000,
         Sign 0, Sign 1, Build, ApiPostSendTx ''0100''])"
  by (simp add: refreshAddress_def fetchAddressDetails_run generateAddressFromSeed_run
        formatTransaction_def sweepPaymentData_def run_defs)

subsection \<open>Insufficient funds\<close>

text \<open>
  Claim C3. When the key parses, the unspent outputs are fetched and the selection leaves a
  negative remainder, \<^verbatim>\<open>sendFromOneAddress\<close> returns the error object of
  \<^verbatim>\<open>INSUFFICIENT_FUNDS\<close>, and the only calls it has made are the key parsing, the
  construction of the builder and the fetch: no input is added, nothing is signed and
  nothing is broadcast.
\<close>

theorem sendFromOneAddress_insufficient_funds:
  assumes "ecpair_valid w key"
    and "api_unspent_outputs w fromAddress = Some unspentOutputs"
    and "getInputs d unspentOutputs
           (getSatoshisToSend d (getOutputs d paymentData)
              (case fee_opt of None \<Rightarrow> DEFAULT_FEE d | Some f \<Rightarrow> f)) = (ins, remainingSatoshis)"
    and "remainingSatoshis < 0"
  shows "sendFromOneAddress w d fromAddress key paymentData fee_opt evs =
           (Inr (ErrorObject INSUFFICIENT_FUNDS),
            evs @ [FromPrivateKey key, NewTransactionBuilder, ApiGetUnspentOutputs fromAddress])"
  using assms by (simp add: sendFromOneAddress_def io_defs Let_def)

text \<open>The scenario of the specification: one unspent output of 500 satoshis, a payment of
  50000 and the default fee of 10000.\<close>

theorem sendFromOneAddress_insufficient_funds_witness:
  "ecpair_valid poor_world example_key
   \<and> api_unspent_outputs poor_world ''1Old'' = Some [\<lparr>txid = ''aa'', vout = 0, u_value = 500\<rparr>]
   \<and> getInputs example_deps [\<lparr>txid = ''aa'', vout = 0, u_value = 500\<rparr>]
         (getSatoshisToSend example_deps (getOutputs example_deps example_payment)
            (case None of None \<Rightarrow> DEFAULT_FEE example_deps | Some f \<Rightarrow> f))
       = ([\<lparr>txid = ''aa'', vout = 0, u_value = 500\<rparr>], - 59500)
   \<and> (- 59500 :: int) < 0
   \<and> sendFromOneAddress poor_world example_deps ''1Old'' example_key example_payment None []
       = (Inr (ErrorObject INSUFFICIENT_FUNDS),
          [FromPrivateKey example_key, NewTransactionBuilder, ApiGetUnspentOutputs ''1Old''])"
proof -
  have h1: "ecpair_valid poor_world example_key"
    by (simp add: example_defs)
  have h2: "api_unspent_outputs poor_world ''1Old'' = Some [\<lparr>txid = ''aa'', vout = 0, u_value = 500\<rparr>]"
    by (simp add: example_defs)
  have h3: "getInputs example_deps [\<lparr>txid = ''aa'', vout = 0, u_value = 500\<rparr>]
         (getSatoshisToSend example_deps (getOutputs example_deps example_payment)
            (case None of None \<Rightarrow> DEFAULT_FEE example_deps | Some f \<Rightarrow> f))
       = ([\<lparr>txid = ''aa'', vout = 0, u_value = 500\<rparr>], - 59500)"
    by (simp add: example_defs)
  have h4: "(- 59500 :: int) < 0" by simp
  from sendFromOneAddress_insufficient_funds [OF h1 h2 h3 h4, of "[]"] h1 h2 h3 h4
  show ?thesis by simp
qed

subsection \<open>Address rotation\<close>

text \<open>
  Claim C5. When the balance fetched for the current address is positive and at most the
  default fee (the fee itself included), \<^verbatim>\<open>refreshAddress\<close> returns a record with the
  address and the private key it was given, and its only call is the balance request:
  no address is derived and no transaction is built or sent.
\<close>

theorem refreshAddress_small_balance_unchanged:
  assumes "fetchAddressDetails w d (a_address addressParam) evs = (Inr (b, ts), evs1)"
    and "0 < b" and "b \<le> DEFAULT_FEE d"
  shows "\<exists>r. refreshAddress w d wal addressParam evs
                = (Inr r, evs @ [ApiGetFullAddress (a_address addressParam)])
           \<and> address r = a_address addressParam
           \<and> privateKey r = a_private_key addressParam"
  using assms
  by (auto simp add: refreshAddress_def Let_def fetchAddressDetails_run io_defs
           split: option.splits sum.splits)

theorem refreshAddress_small_balance_unchanged_witness:
  "fetchAddressDetails small_balance_world example_deps (a_address example_address) []
     = (Inr (10000, [\<lparr>amount = 1 / 10000, created_date = 0, fee = 200,
                      receiver_address = Some ''1Old'', sender_address = Some ''1Src'',
                      status = 1, transaction_id = ''dd''\<rparr>]),
        [ApiGetFullAddress ''1Old''])
   \<and> (0 :: int) < 10000 \<and> 10000 \<le> DEFAULT_FEE example_deps
   \<and> (\<exists>r. refreshAddress small_balance_world example_deps example_wallet example_address []
                = (Inr r, [] @ [ApiGetFullAddress (a_address example_address)])
           \<and> address r = a_address example_address
           \<and> privateKey r = a_private_key example_address)"
proof -
  have h1: "fetchAddressDetails small_balance_world example_deps (a_address example_address) []
     = (Inr (10000, [\<lparr>amount = 1 / 10000, created_date = 0, fee = 200,
                      receiver_address = Some ''1Old'', sender_address = Some ''1Src'',
                      status = 1, transaction_id = ''dd''\<rparr>]),
        [ApiGetFullAddress ''1Old''])"
    by (simp add: fetchAddressDetails_run formatTransaction_def example_defs)
  have h2: "(0 :: int) < 10000" by simp
  have h3: "10000 \<le> DEFAULT_FEE example_deps" by (simp add: example_defs)
  from refreshAddress_small_balance_unchanged [OF h1 h2 h3, of example_wallet] h1 h2 h3
  show ?thesis by blast
qed

text \<open>
  Claim C10. In the small-balance branch the record returned carries the address and the
  private key of the address argument and the \<^verbatim>\<open>address_index\<close> of the wallet;
  whatever else the address argument holds (an index of its own, here 7) is not read, and
  the balance request is the only call.
\<close>

theorem refreshAddress_small_balance_index:
  assumes "api_full_address w (a_address addressParam) = Some res"
    and "formatTransactionResponse d (txs res) (a_address addressParam) = Inr ts"
    and "0 < balance res" and "balance res \<le> DEFAULT_FEE d"
  shows "refreshAddress w d wal addressParam evs =
           (Inr \<lparr>address = a_address addressParam,
                 index = address_index wal,
                 privateKey = a_private_key addressParam\<rparr>,
            evs @ [ApiGetFullAddress (a_address addressParam)])"
  using assms
  by (simp add: refreshAddress_def Let_def fetchAddressDetails_run io_defs)

theorem refreshAddress_small_balance_index_witness:
  "api_full_address small_balance_world (a_address example_address)
     = Some \<lparr>balance = 10000, txs = [example_transaction]\<rparr>
   \<and> formatTransactionResponse example_deps [example_transaction] (a_address example_address)
       = Inr [\<lparr>amount = 1 / 10000, created_date = 0, fee = 200,
                      receiver_address = Some ''1Old'', sender_address = Some ''1Src'',
                      status = 1, transaction_id = ''dd''\<rparr>]
   \<and> a_index example_address = 7
   \<and> refreshAddress small_balance_world example_deps example_wallet example_address []
       = (Inr \<lparr>address = ''1Old'', index = 3, privateKey = example_key\<rparr>,
          [ApiGetFullAddress ''1Old''])"
proof -
  have h1: "api_full_address small_balance_world (a_address example_address)
     = Some \<lparr>balance = 10000, txs = [example_transaction]\<rparr>"
    by (simp add: example_defs)
  have h2: "formatTransactionResponse example_deps
              (txs \<lparr>balance = 10000, txs = [example_transaction]\<rparr>) (a_address example_address)
       = Inr [\<lparr>amount = 1 / 10000, created_date = 0, fee = 200,
                      receiver_address = Some ''1Old'', sender_address = Some ''1Src'',
                      status = 1, transaction_id = ''dd''\<rparr>]"
    by (simp add: formatTransaction_def example_defs)
  have h3: "0 < balance \<lparr>balance = 10000, txs = [example_transaction]\<rparr>" by simp
  have h4: "balance \<lparr>balance = 10000, txs = [example_transaction]\<rparr> \<le> DEFAULT_FEE example_deps"
    by (simp add: example_defs)
  from refreshAddress_small_balance_index [OF h1 h2 h3 h4, of example_wallet "[]"] h1 h2
  show ?thesis by (simp add: example_defs)
qed

text \<open>
  Claim C6. When the balance fetched is zero, \<^verbatim>\<open>refreshAddress\<close> makes the balance
  request and the derivation and nothing else (no unspent-output request, no transaction
  builder, no broadcast), and it returns what the derivation gives for the index after the
  wallet's: the new record, or the exception of the derivation.
\<close>

theorem refreshAddress_zero_balance:
  assumes "api_full_address w (a_address addressParam) = Some res"
    and "formatTransactionResponse d (txs res) (a_address addressParam) = Inr ts"
    and "balance res = 0"
  shows "refreshAddress w d wal addressParam evs =
           (case derive w (seed wal) (ACCOUNT_BASE d) (CHANGE_CHAIN_EXTERNAL d) (address_index wal + 1) of
              None \<Rightarrow> Inl (Threw (DerivePath (seed wal) (ACCOUNT_BASE d) (CHANGE_CHAIN_EXTERNAL d)
                                    (address_index wal + 1)))
            | Some (a, k) \<Rightarrow> Inr \<lparr>address = a, index = address_index wal + 1, privateKey = k\<rparr>,
            evs @ [ApiGetFullAddress (a_address addressParam),
                   DerivePath (seed wal) (ACCOUNT_BASE d) (CHANGE_CHAIN_EXTERNAL d)
                     (address_index wal + 1)])"
  using assms
  by (simp add: refreshAddress_def Let_def fetchAddressDetails_run generateAddressFromSeed_run io_defs
           split: option.splits)

theorem refreshAddress_zero_balance_witness:
  "api_full_address zero_balance_world (a_address example_address) = Some \<lparr>balance = 0, txs = []\<rparr>
   \<and> formatTransactionResponse example_deps [] (a_address example_address) = Inr []
   \<and> refreshAddress zero_balance_world example_deps example_wallet example_address []
       = (Inr \<lparr>address = ''1New'', index = 4, privateKey = ''0b''\<rparr>,
          [ApiGetFullAddress ''1Old'', DerivePath ''abandon abandon about'' 0 0 4])"
proof -
  have h1: "api_full_address zero_balance_world (a_address example_address)
              = Some \<lparr>balance = 0, txs = []\<rparr>"
    by (simp add: example_defs zero_balance_world_def)
  have h2: "formatTransactionResponse example_deps (txs \<lparr>balance = 0, txs = []\<rparr>)
              (a_address example_address) = Inr []"
    by simp
  have h3: "balance \<lparr>balance = 0, txs = []\<rparr> = 0" by simp
  from refreshAddress_zero_balance [OF h1 h2 h3, of example_wallet "[]"] h1 h2
  show ?thesis by (simp add: example_defs zero_balance_world_def)
qed

subsection \<open>Decimal numerals and derivation paths\<close>

text \<open>Reading a printed number gives the number back.\<close>

lemma below_ten: "d < 10 \<Longrightarrow> d \<in> {0, 1, 2, 3, 4, 5, 6, 7, 8, 9 :: nat}"
  by auto

lemma digit_char_is_digit: "d < 10 \<Longrightarrow> is_digit (digit_char d)"
  by (drule below_ten) (auto simp add: is_digit_def digit_char_def)


lemma decimal_digits: "list_all is_digit (decimal n) \<and> decimal n \<noteq> []"
proof (induction n rule: decimal.induct)
  case (1 n)
  show ?case
  proof (cases "n < 10")
    case True
    then show ?thesis by (simp add: decimal.simps [of n] digit_char_is_digit)
  next
    case False
    with 1 show ?thesis by (simp add: decimal.simps [of n] digit_char_is_digit)
  qed
qed










lemma js_number_string_nonempty: "js_number_string i \<noteq> []"
  using decimal_digits by (simp add: js_number_string_def)











text \<open>The example library at the address indices 1, 10 and \<open>2\<^sup>3\<^sup>2\<close>, and the path of
  the source evaluated as a string.\<close>

lemmas eval_defs =
  child_node_def bip32_derive_def derivePath_def derive_component_def components_of_def
  parse_component_def parse_digits_def is_digit_def digit_value_def digit_char_def
  js_number_string_def decimal.simps example_lib_def example_base_def Let_def




lemma example_pipeline_10:
  "bip32_derive example_lib example_base ''abandon abandon about'' 0 0 10
     = Some (''addr-10'', ''key-10'')"
  by (simp add: eval_defs)

subsection \<open>Key derivation\<close>



subsection \<open>A malformed private key\<close>

text \<open>
  Claim C9, as amended. When the private key does not parse,
  \<^verbatim>\<open>sendFromOneAddress\<close> throws the exception of
  \<^verbatim>\<open>ECPair.fromPrivateKey\<close>, which no handler catches, before any request is made;
  it returns no error object.
\<close>

theorem sendFromOneAddress_malformed_key_throws:
  assumes "\<not> ecpair_valid w key"
  shows "sendFromOneAddress w d fromAddress key paymentData fee_opt evs =
           (Inl (Threw (FromPrivateKey key)), evs @ [FromPrivateKey key])"
  using assms by (simp add: sendFromOneAddress_def io_defs)

theorem sendFromOneAddress_malformed_key_throws_witness:
  "\<not> ecpair_valid example_world ''zz''
   \<and> sendFromOneAddress example_world example_deps ''1Old'' ''zz'' example_payment None []
       = (Inl (Threw (FromPrivateKey ''zz'')), [FromPrivateKey ''zz''])"
proof -
  have h: "\<not> ecpair_valid example_world ''zz''"
    by (simp add: example_defs)
  from sendFromOneAddress_malformed_key_throws [OF h, of example_deps "''1Old''" example_payment None "[]"] h
  show ?thesis by simp
qed

text \<open>Claim C9 as stated fails: with the key \<^verbatim>\<open>zz\<close> the call ends in the exception of
  the key parsing, not in an error object.\<close>

theorem sendFromOneAddress_malformed_key_counterexample:
  "fst (sendFromOneAddress example_world example_deps ''1Old'' ''zz'' example_payment None [])
     = Inl (Threw (FromPrivateKey ''zz''))"
  by (simp add: sendFromOneAddress_def io_defs example_defs)


subsection \<open>The change output\<close>

text \<open>
  Claim C7. When the selection leaves a remainder that is not negative, the dust threshold
  is not negative and \<^verbatim>\<open>sendFromOneAddress\<close> returns, the outputs given to the
  transaction builder are the payments in the caller's order, followed by one change output
  paying the remainder to \<^verbatim>\<open>fromAddress\<close> exactly when the remainder exceeds the
  dust threshold; at or below the threshold, zero included, there is no change output and
  the call still returns.
\<close>

theorem sendFromOneAddress_change_output:
  assumes "api_unspent_outputs w fromAddress = Some unspentOutputs"
    and "getInputs d unspentOutputs
           (getSatoshisToSend d (getOutputs d paymentData)
              (case fee_opt of None \<Rightarrow> DEFAULT_FEE d | Some f \<Rightarrow> f)) = (ins, remainingSatoshis)"
    and "0 \<le> remainingSatoshis"
    and "0 \<le> DUST_THRESHOLD d"
    and "sendFromOneAddress w d fromAddress key paymentData fee_opt evs = (Inr res, evs')"
  shows "addedOutputs (drop (length evs) evs') =
           map (\<lambda>p. \<lparr>o_address = p_address p, o_satoshis = floatToSatoshi d (p_amount p)\<rparr>) paymentData
           @ (if remainingSatoshis > DUST_THRESHOLD d
              then [\<lparr>o_address = fromAddress, o_satoshis = remainingSatoshis\<rparr>] else [])"
proof -
  from assms(5)
  have run: "sendFromOneAddress w d fromAddress key paymentData fee_opt (evs @ []) = (Inr res, evs')"
    by simp
  from sendFromOneAddress_returns_addedOutputs [OF assms(1,2,3) run] assms(3,4)
  show ?thesis by (auto simp add: withChange_def getOutputs_def)
qed

text \<open>The scenario of the specification: unspent outputs of 50000 and 30000, a target of
  60000 and a dust threshold of 1000 give a change output of 20000. With a target of 80000
  the remainder is zero, there is no change output and the call succeeds all the same.\<close>

theorem sendFromOneAddress_change_output_witness:
  "api_unspent_outputs example_world ''1Old''
       = Some [\<lparr>txid = ''aa'', vout = 0, u_value = 50000\<rparr>, \<lparr>txid = ''bb'', vout = 1, u_value = 30000\<rparr>]
   \<and> getInputs example_deps
       [\<lparr>txid = ''aa'', vout = 0, u_value = 50000\<rparr>, \<lparr>txid = ''bb'', vout = 1, u_value = 30000\<rparr>]
       (getSatoshisToSend example_deps (getOutputs example_deps example_payment)
          (case None of None \<Rightarrow> DEFAULT_FEE example_deps | Some f \<Rightarrow> f))
       = ([\<lparr>txid = ''aa'', vout = 0, u_value = 50000\<rparr>, \<lparr>txid = ''bb'', vout = 1, u_value = 30000\<rparr>], 20000)
   \<and> (0 :: int) \<le> 20000
   \<and> 0 \<le> DUST_THRESHOLD example_deps
   \<and> fst (sendFromOneAddress example_world example_deps ''1Old'' example_key example_payment None [])
       = Inr (Sent ''/tx/cc'')
   \<and> addedOutputs (drop (length ([] :: event list))
       (snd (sendFromOneAddress example_world example_deps ''1Old'' example_key example_payment None [])))
       = [\<lparr>o_address = ''1Dst'', o_satoshis = 50000\<rparr>, \<lparr>o_address = ''1Old'', o_satoshis = 20000\<rparr>]
   \<and> getInputs example_deps
       [\<lparr>txid = ''aa'', vout = 0, u_value = 50000\<rparr>, \<lparr>txid = ''bb'', vout = 1, u_value = 30000\<rparr>]
       (getSatoshisToSend example_deps (getOutputs example_deps example_payment_all)
          (case None of None \<Rightarrow> DEFAULT_FEE example_deps | Some f \<Rightarrow> f))
       = ([\<lparr>txid = ''aa'', vout = 0, u_value = 50000\<rparr>, \<lparr>txid = ''bb'', vout = 1, u_value = 30000\<rparr>], 0)
   \<and> (0 :: int) \<le> 0
   \<and> fst (sendFromOneAddress example_world example_deps ''1Old'' example_key example_payment_all None [])
       = Inr (Sent ''/tx/cc'')
   \<and> addedOutputs (drop (length ([] :: event list))
       (snd (sendFromOneAddress example_world example_deps ''1Old'' example_key example_payment_all None [])))
       = [\<lparr>o_address = ''1Dst'', o_satoshis = 70000\<rparr>]"
proof -
  have u1: "api_unspent_outputs example_world ''1Old''
       = Some [\<lparr>txid = ''aa'', vout = 0, u_value = 50000\<rparr>, \<lparr>txid = ''bb'', vout = 1, u_value = 30000\<rparr>]"
    by (simp add: example_defs)
  have g1: "getInputs example_deps
       [\<lparr>txid = ''aa'', vout = 0, u_value = 50000\<rparr>, \<lparr>txid = ''bb'', vout = 1, u_value = 30000\<rparr>]
       (getSatoshisToSend example_deps (getOutputs example_deps example_payment)
          (case None of None \<Rightarrow> DEFAULT_FEE example_deps | Some f \<Rightarrow> f))
       = ([\<lparr>txid = ''aa'', vout = 0, u_value = 50000\<rparr>, \<lparr>txid = ''bb'', vout = 1, u_value = 30000\<rparr>], 20000)"
    by (simp add: example_defs)
  have r1: "(0 :: int) \<le> 20000"
    by simp
  have d1: "0 \<le> DUST_THRESHOLD example_deps"
    by (simp add: example_defs)
  have g2: "getInputs example_deps
       [\<lparr>txid = ''aa'', vout = 0, u_value = 50000\<rparr>, \<lparr>txid = ''bb'', vout = 1, u_value = 30000\<rparr>]
       (getSatoshisToSend example_deps (getOutputs example_deps example_payment_all)
          (case None of None \<Rightarrow> DEFAULT_FEE example_deps | Some f \<Rightarrow> f))
       = ([\<lparr>txid = ''aa'', vout = 0, u_value = 50000\<rparr>, \<lparr>txid = ''bb'', vout = 1, u_value = 30000\<rparr>], 0)"
    by (simp add: example_defs example_payment_all_def)
  have r2: "(0 :: int) \<le> 0"
    by simp
  have s1: "fst (sendFromOneAddress example_world example_deps ''1Old'' example_key example_payment None [])
       = Inr (Sent ''/tx/cc'')"
    by (simp add: example_send)
  have s2: "fst (sendFromOneAddress example_world example_deps ''1Old'' example_key example_payment_all None [])
       = Inr (Sent ''/tx/cc'')"
    by (simp add: example_send_all)
  have c1: "addedOutputs (drop (length ([] :: event list))
       (snd (sendFromOneAddress example_world example_deps ''1Old'' example_key example_payment None [])))
       = [\<lparr>o_address = ''1Dst'', o_satoshis = 50000\<rparr>, \<lparr>o_address = ''1Old'', o_satoshis = 20000\<rparr>]"
    unfolding example_send
    using sendFromOneAddress_change_output [OF u1 g1 r1 d1 example_send]
    by (simp add: example_defs)
  have c2: "addedOutputs (drop (length ([] :: event list))
       (snd (sendFromOneAddress example_world example_deps ''1Old'' example_key example_payment_all None [])))
       = [\<lparr>o_address = ''1Dst'', o_satoshis = 70000\<rparr>]"
    unfolding example_send_all
    using sendFromOneAddress_change_output [OF u1 g2 r2 d1 example_send_all]
    by (simp add: example_defs example_payment_all_def)
  from u1 g1 r1 d1 s1 c1 g2 r2 s2 c2 show ?thesis by (intro conjI)
qed

subsection \<open>The broadcast\<close>

text \<open>
  Claim C4, as amended. When the draft is built and the provider answers the broadcast with
  a body, \<^verbatim>\<open>sendFromOneAddress\<close> succeeds exactly when the status is 200, with the
  link made from whatever the body holds as \<^verbatim>\<open>txid\<close>, present or not, and returns the
  error object of \<^verbatim>\<open>BROADCAST_ERROR\<close> on any other status.
\<close>

theorem sendFromOneAddress_broadcast_status:
  assumes "ecpair_valid w key"
    and "api_unspent_outputs w fromAddress = Some unspentOutputs"
    and "getInputs d unspentOutputs
           (getSatoshisToSend d (getOutputs d paymentData)
              (case fee_opt of None \<Rightarrow> DEFAULT_FEE d | Some f \<Rightarrow> f)) = (ins, remainingSatoshis)"
    and "0 \<le> remainingSatoshis"
    and "buildAndSign w ins (withChange d fromAddress remainingSatoshis (getOutputs d paymentData))
           (evs @ [FromPrivateKey key, NewTransactionBuilder, ApiGetUnspentOutputs fromAddress])
         = (Inr signedTx, evs1)"
    and "api_send_tx w signedTx = Some response"
    and "send_data response = Some body"
  shows "sendFromOneAddress w d fromAddress key paymentData fee_opt evs =
           (Inr (if send_status response = 200 then Sent (VIEW_TX d (body_txid body))
                 else ErrorObject BROADCAST_ERROR),
            evs1 @ [ApiPostSendTx signedTx])"
  using sendFromOneAddress_selected [OF assms(1-4)] assms(5-7)
  by (simp add: io_defs broadcast_def)

theorem sendFromOneAddress_broadcast_status_witness:
  "ecpair_valid no_txid_world example_key
   \<and> api_unspent_outputs no_txid_world ''1Old''
       = Some [\<lparr>txid = ''aa'', vout = 0, u_value = 50000\<rparr>, \<lparr>txid = ''bb'', vout = 1, u_value = 30000\<rparr>]
   \<and> getInputs example_deps
         [\<lparr>txid = ''aa'', vout = 0, u_value = 50000\<rparr>, \<lparr>txid = ''bb'', vout = 1, u_value = 30000\<rparr>]
         (getSatoshisToSend example_deps (getOutputs example_deps example_payment)
            (case None of None \<Rightarrow> DEFAULT_FEE example_deps | Some f \<Rightarrow> f))
       = ([\<lparr>txid = ''aa'', vout = 0, u_value = 50000\<rparr>, \<lparr>txid = ''bb'', vout = 1, u_value = 30000\<rparr>],
          20000)
   \<and> (0 :: int) \<le> 20000
   \<and> api_send_tx no_txid_world ''0100''
       = Some \<lparr>send_status = 200, send_data = Some \<lparr>body_txid = None\<rparr>\<rparr>
   \<and> sendFromOneAddress no_txid_world example_deps ''1Old'' example_key example_payment None []
       = (Inr (Sent ''/tx/undefined''),
          [FromPrivateKey example_key, NewTransactionBuilder, ApiGetUnspentOutputs ''1Old'',
           AddInput ''aa'' 0, AddInput ''bb'' 1, AddOutput ''1Dst'' 50000, AddOutput ''1Old'' 20000,
           Sign 0, Sign 1, Build, ApiPostSendTx ''0100''])"
proof -
  let ?us = "[\<lparr>txid = ''aa'', vout = 0, u_value = 50000\<rparr>, \<lparr>txid = ''bb'', vout = 1, u_value = 30000\<rparr>]"
  have h1: "ecpair_valid no_txid_world example_key"
    by (simp add: example_defs no_txid_world_def)
  have h2: "api_unspent_outputs no_txid_world ''1Old'' = Some ?us"
    by (simp add: example_defs no_txid_world_def)
  have h3: "getInputs example_deps ?us
         (getSatoshisToSend example_deps (getOutputs example_deps example_payment)
            (case None of None \<Rightarrow> DEFAULT_FEE example_deps | Some f \<Rightarrow> f)) = (?us, 20000)"
    by (simp add: example_defs no_txid_world_def)
  have h4: "(0 :: int) \<le> 20000" by simp
  have h6: "api_send_tx no_txid_world ''0100''
              = Some \<lparr>send_status = 200, send_data = Some \<lparr>body_txid = None\<rparr>\<rparr>"
    by (simp add: example_defs no_txid_world_def)
  have h7: "send_data \<lparr>send_status = 200, send_data = Some \<lparr>body_txid = None\<rparr>\<rparr>
              = Some \<lparr>body_txid = None\<rparr>"
    by simp
  from sendFromOneAddress_broadcast_status [OF h1 h2 h3 h4 example_buildAndSign h6 h7]
    h1 h2 h3 h4 h6
  show ?thesis by (simp add: example_defs no_txid_world_def)
qed

text \<open>Claim C4 as stated fails: status 200 and a body without \<^verbatim>\<open>txid\<close> is a success,
  with a link to \<^verbatim>\<open>undefined\<close>.\<close>

theorem sendFromOneAddress_no_txid_counterexample:
  "fst (sendFromOneAddress no_txid_world example_deps ''1Old'' example_key example_payment None [])
     = Inr (Sent ''/tx/undefined'')
   \<and> fst (sendFromOneAddress no_txid_world example_deps ''1Old'' example_key example_payment None [])
     \<noteq> Inr (ErrorObject BROADCAST_ERROR)"
  by (simp add: run_defs no_txid_world_def)

subsection \<open>A sweep that fails\<close>

text \<open>
  Claim C1 does not hold of the code. With a balance of 80000 and a provider that rejects the
  request for the unspent outputs, the sweep returns the error object of
  \<^verbatim>\<open>API_ERROR\<close>, and \<^verbatim>\<open>refreshAddress\<close> still returns the new address record;
  the same happens when the unspent outputs do not cover the sweep
  (\<^verbatim>\<open>INSUFFICIENT_FUNDS\<close>). Nothing was added to a draft and nothing was broadcast.
\<close>

theorem refreshAddress_returns_record_after_failed_sweep:
  "refreshAddress unspent_down_world example_deps example_wallet example_address []
     = (Inr \<lparr>address = ''1New'', index = 4, privateKey = ''0b''\<rparr>,
        [ApiGetFullAddress ''1Old'', DerivePath ''abandon abandon about'' 0 0 4,
         FromPrivateKey example_key, NewTransactionBuilder, ApiGetUnspentOutputs ''1Old''])
   \<and> fst (sendFromOneAddress unspent_down_world example_deps ''1Old'' example_key
             (sweepPaymentData example_deps ''1New'' 80000) None
             [ApiGetFullAddress ''1Old'', DerivePath ''abandon abandon about'' 0 0 4])
       = Inr (ErrorObject API_ERROR)
   \<and> refreshAddress poor_world example_deps example_wallet example_address []
     = (Inr \<lparr>address = ''1New'', index = 4, privateKey = ''0b''\<rparr>,
        [ApiGetFullAddress ''1Old'', DerivePath ''abandon abandon about'' 0 0 4,
         FromPrivateKey example_key, NewTransactionBuilder, ApiGetUnspentOutputs ''1Old''])
   \<and> fst (sendFromOneAddress poor_world example_deps ''1Old'' example_key
             (sweepPaymentData example_deps ''1New'' 80000) None
             [ApiGetFullAddress ''1Old'', DerivePath ''abandon abandon about'' 0 0 4])
       = Inr (ErrorObject INSUFFICIENT_FUNDS)"
  by (simp add: refreshAddress_def fetchAddressDetails_run generateAddressFromSeed_run
        formatTransaction_def sweepPaymentData_def unspent_down_world_def run_defs)

subsection \<open>Units\<close>

text \<open>
  Claim C2, as amended. In the sweep branch of \<^verbatim>\<open>refreshAddress\<close> the amount
  \<open>balance - DEFAULT_FEE\<close> is computed in satoshis, converted with
  \<^verbatim>\<open>satoshiToFloat\<close> to be passed to \<^verbatim>\<open>sendFromOneAddress\<close>, and converted
  back there: the output given to the transaction builder carries
  \<open>floatToSatoshi (satoshiToFloat (balance - DEFAULT_FEE))\<close>, and the change is the
  integer remainder. \<^verbatim>\<open>formatTransactionResponse\<close> sums the outputs of each
  transaction in satoshis and converts the finished sum.
\<close>

theorem refreshAddress_converts_sweep_amount:
  assumes "api_full_address w (a_address addressParam) = Some res"
    and "formatTransactionResponse d (txs res) (a_address addressParam) = Inr ts"
    and "\<not> (0 < balance res \<and> balance res \<le> DEFAULT_FEE d)"
    and "balance res \<noteq> 0"
    and "derive w (seed wal) (ACCOUNT_BASE d) (CHANGE_CHAIN_EXTERNAL d) (address_index wal + 1)
           = Some (newAddress, newKey)"
    and "api_unspent_outputs w (a_address addressParam) = Some unspentOutputs"
    and "getInputs d unspentOutputs
           (getSatoshisToSend d (getOutputs d (sweepPaymentData d newAddress (balance res)))
              (DEFAULT_FEE d)) = (ins, remainingSatoshis)"
    and "0 \<le> remainingSatoshis"
    and "refreshAddress w d wal addressParam evs = (Inr r, evs')"
  shows "addedOutputs (drop (length evs) evs') =
           withChange d (a_address addressParam) remainingSatoshis
             [\<lparr>o_address = newAddress,
               o_satoshis = floatToSatoshi d (satoshiToFloat d (balance res - DEFAULT_FEE d))\<rparr>]
         \<and> map amount ts
             = map (\<lambda>t. satoshiToFloat d (receivedSatoshis (a_address addressParam) t)) (txs res)"
proof
  let ?pre = "[ApiGetFullAddress (a_address addressParam),
               DerivePath (seed wal) (ACCOUNT_BASE d) (CHANGE_CHAIN_EXTERNAL d) (address_index wal + 1)]"
  obtain sr where send:
    "sendFromOneAddress w d (a_address addressParam) (a_private_key addressParam)
       (sweepPaymentData d newAddress (balance res)) None (evs @ ?pre) = (Inr sr, evs')"
    using refreshAddress_sweep [OF assms(1-5), of evs] assms(9)
    by (auto split: prod.splits sum.splits)
  have fee: "getInputs d unspentOutputs
           (getSatoshisToSend d (getOutputs d (sweepPaymentData d newAddress (balance res)))
              (case None of None \<Rightarrow> DEFAULT_FEE d | Some f \<Rightarrow> f)) = (ins, remainingSatoshis)"
    using assms(7) by simp
  from sendFromOneAddress_returns_addedOutputs [OF assms(6) fee assms(8) send]
  show "addedOutputs (drop (length evs) evs') =
           withChange d (a_address addressParam) remainingSatoshis
             [\<lparr>o_address = newAddress,
               o_satoshis = floatToSatoshi d (satoshiToFloat d (balance res - DEFAULT_FEE d))\<rparr>]"
    by (simp add: getOutputs_def sweepPaymentData_def)
next
  from assms(2) show "map amount ts
      = map (\<lambda>t. satoshiToFloat d (receivedSatoshis (a_address addressParam) t)) (txs res)"
    by (rule formatTransactionResponse_amounts)
qed

theorem refreshAddress_converts_sweep_amount_witness:
  "api_full_address example_world (a_address example_address)
       = Some \<lparr>balance = 80000, txs = [example_transaction]\<rparr>
   \<and> formatTransactionResponse example_deps (txs \<lparr>balance = 80000, txs = [example_transaction]\<rparr>)
       (a_address example_address)
       = Inr [\<lparr>amount = 1 / 10000, created_date = 0, fee = 200,
              receiver_address = Some ''1Old'', sender_address = Some ''1Src'',
              status = 1, transaction_id = ''dd''\<rparr>]
   \<and> \<not> (0 < balance \<lparr>balance = 80000, txs = [example_transaction]\<rparr>
          \<and> balance \<lparr>balance = 80000, txs = [example_transaction]\<rparr> \<le> DEFAULT_FEE example_deps)
   \<and> balance \<lparr>balance = 80000, txs = [example_transaction]\<rparr> \<noteq> 0
   \<and> derive example_world (seed example_wallet) (ACCOUNT_BASE example_deps)
       (CHANGE_CHAIN_EXTERNAL example_deps) (address_index example_wallet + 1) = Some (''1New'', ''0b'')
   \<and> api_unspent_outputs example_world (a_address example_address)
       = Some [\<lparr>txid = ''aa'', vout = 0, u_value = 50000\<rparr>, \<lparr>txid = ''bb'', vout = 1, u_value = 30000\<rparr>]
   \<and> getInputs example_deps
       [\<lparr>txid = ''aa'', vout = 0, u_value = 50000\<rparr>, \<lparr>txid = ''bb'', vout = 1, u_value = 30000\<rparr>]
       (getSatoshisToSend example_deps
          (getOutputs example_deps (sweepPaymentData example_deps ''1New''
             (balance \<lparr>balance = 80000, txs = [example_transaction]\<rparr>)))
          (DEFAULT_FEE example_deps))
       = ([\<lparr>txid = ''aa'', vout = 0, u_value = 50000\<rparr>, \<lparr>txid = ''bb'', vout = 1, u_value = 30000\<rparr>], 0)
   \<and> (0 :: int) \<le> 0
   \<and> addedOutputs (drop (length ([] :: event list))
       (snd (refreshAddress example_world example_deps example_wallet example_address [])))
       = [\<lparr>o_address = ''1New'', o_satoshis = 70000\<rparr>]
   \<and> map amount [\<lparr>amount = 1 / 10000, created_date = 0, fee = 200,
              receiver_address = Some ''1Old'', sender_address = Some ''1Src'',
              status = 1, transaction_id = ''dd''\<rparr>]
       = map (\<lambda>t. satoshiToFloat example_deps (receivedSatoshis (a_address example_address) t))
           (txs \<lparr>balance = 80000, txs = [example_transaction]\<rparr>)"
proof -
  have h1: "api_full_address example_world (a_address example_address)
       = Some \<lparr>balance = 80000, txs = [example_transaction]\<rparr>"
    by (simp add: example_defs)
  have h2: "formatTransactionResponse example_deps (txs \<lparr>balance = 80000, txs = [example_transaction]\<rparr>)
       (a_address example_address)
       = Inr [\<lparr>amount = 1 / 10000, created_date = 0, fee = 200,
              receiver_address = Some ''1Old'', sender_address = Some ''1Src'',
              status = 1, transaction_id = ''dd''\<rparr>]"
    by (simp add: formatTransaction_def example_defs)
  have h3: "\<not> (0 < balance \<lparr>balance = 80000, txs = [example_transaction]\<rparr>
          \<and> balance \<lparr>balance = 80000, txs = [example_transaction]\<rparr> \<le> DEFAULT_FEE example_deps)"
    by (simp add: example_defs)
  have h4: "balance \<lparr>balance = 80000, txs = [example_transaction]\<rparr> \<noteq> 0"
    by simp
  have h5: "derive example_world (seed example_wallet) (ACCOUNT_BASE example_deps)
       (CHANGE_CHAIN_EXTERNAL example_deps) (address_index example_wallet + 1) = Some (''1New'', ''0b'')"
    by (simp add: example_defs)
  have h6: "api_unspent_outputs example_world (a_address example_address)
       = Some [\<lparr>txid = ''aa'', vout = 0, u_value = 50000\<rparr>, \<lparr>txid = ''bb'', vout = 1, u_value = 30000\<rparr>]"
    by (simp add: example_defs)
  have h7: "getInputs example_deps
       [\<lparr>txid = ''aa'', vout = 0, u_value = 50000\<rparr>, \<lparr>txid = ''bb'', vout = 1, u_value = 30000\<rparr>]
       (getSatoshisToSend example_deps
          (getOutputs example_deps (sweepPaymentData example_deps ''1New''
             (balance \<lparr>balance = 80000, txs = [example_transaction]\<rparr>)))
          (DEFAULT_FEE example_deps))
       = ([\<lparr>txid = ''aa'', vout = 0, u_value = 50000\<rparr>, \<lparr>txid = ''bb'', vout = 1, u_value = 30000\<rparr>], 0)"
    by (simp add: sweepPaymentData_def example_defs)
  have h8: "(0 :: int) \<le> 0"
    by simp
  note sweep = refreshAddress_converts_sweep_amount [OF h1 h2 h3 h4 h5 h6 h7 h8 example_refresh]
  have c1: "addedOutputs (drop (length ([] :: event list))
       (snd (refreshAddress example_world example_deps example_wallet example_address [])))
       = [\<lparr>o_address = ''1New'', o_satoshis = 70000\<rparr>]"
    unfolding example_refresh using sweep [THEN conjunct1]
    by (simp add: withChange_def example_deps_def)
  have c2: "map amount [\<lparr>amount = 1 / 10000, created_date = 0, fee = 200,
              receiver_address = Some ''1Old'', sender_address = Some ''1Src'',
              status = 1, transaction_id = ''dd''\<rparr>]
       = map (\<lambda>t. satoshiToFloat example_deps (receivedSatoshis (a_address example_address) t))
           (txs \<lparr>balance = 80000, txs = [example_transaction]\<rparr>)"
    by (rule sweep [THEN conjunct2])
  from h1 h2 h3 h4 h5 h6 h7 h8 c1 c2 show ?thesis by (intro conjI)
qed

text \<open>Claim C2 as stated fails: for a balance of 80000 the amount that
  \<^verbatim>\<open>refreshAddress\<close> passes to \<^verbatim>\<open>sendFromOneAddress\<close> is 0.0007 coins, not an
  integer number of satoshis.\<close>

theorem sweepPaymentData_decimal_counterexample:
  "sweepPaymentData example_deps ''1New'' 80000 = [\<lparr>p_address = ''1New'', p_amount = 7 / 10000\<rparr>]
   \<and> (7 / 10000 :: rat) \<notin> \<int>"
proof
  show "sweepPaymentData example_deps ''1New'' 80000 = [\<lparr>p_address = ''1New'', p_amount = 7 / 10000\<rparr>]"
    by (simp add: sweepPaymentData_def example_defs)
next
  show "(7 / 10000 :: rat) \<notin> \<int>"
  proof
    assume "(7 / 10000 :: rat) \<in> \<int>"
    then obtain z :: int where z: "(7 / 10000 :: rat) = of_int z"
      by (rule Ints_cases)
    have "(7 :: rat) = (7 / 10000) * 10000" by simp
    also have "\<dots> = of_int z * 10000" by (simp only: z)
    also have "\<dots> = of_int (z * 10000)" by (simp only: of_int_mult of_int_numeral)
    finally have "(of_int 7 :: rat) = of_int (z * 10000)" by (simp only: of_int_numeral)
    then have "(7 :: int) = z * 10000" by (simp only: of_int_eq_iff)
    then have "(7 :: int) mod 10000 = (z * 10000) mod 10000" by (rule arg_cong)
    then show False by simp
  qed
qed

end
